theory Spec2Isabelle
  imports Main
begin

section \<open>The nface package: a client for the reddit api\<close>

text \<open>
  A shallow embedding of \<^verbatim>\<open>src/nface/nface.go\<close>. The package builds an
  \<^verbatim>\<open>http.Request\<close> from a \<^verbatim>\<open>Request\<close> value, sends it through the
  \<^verbatim>\<open>http.Client\<close> held by the \<^verbatim>\<open>Client\<close>, reads the body of the response
  and hands it to \<^verbatim>\<open>json.Unmarshal\<close>.

  Go's pairs \<^verbatim>\<open>(value, error)\<close> are kept as pairs of options where the source
  inspects both halves, a pointer that the source tests against \<^verbatim>\<open>nil\<close> or
  leaves \<^verbatim>\<open>nil\<close> is an \<open>option\<close>, and a run-time panic is a result of its
  own. The receivers \<^verbatim>\<open>c *Client\<close> and the argument \<^verbatim>\<open>r *Request\<close> are
  taken to point to a value.
\<close>

subsection \<open>Constants\<close>

text \<open>
  \<^verbatim>\<open>type reqAction int\<close> with \<^verbatim>\<open>GET = iota\<close> and \<^verbatim>\<open>POST = iota\<close> in one
  constant block: 0 and 1. The type is an open integer type, so a Request can
  carry any other number.
\<close>

type_synonym reqAction = int

definition GET :: reqAction where
  "GET = 0"

definition POST :: reqAction where
  "POST = 1"

definition authURL :: string where
  "authURL = ''https://www.reddit.com/api/v1/access_token''"

text \<open>The package constant \<^verbatim>\<open>baseURL\<close>; the name without suffix is the field of Client.\<close>

definition baseURL_const :: string where
  "baseURL_const = ''https://oauth.reddit.com/api''"

definition contentType :: string where
  "contentType = ''application/x-www-form-urlencoded''"

definition StatusOK :: int where
  "StatusOK = 200"

subsection \<open>Data\<close>

type_synonym bytes = string

text \<open>\<^verbatim>\<open>url.Values\<close> is \<^verbatim>\<open>map[string][]string\<close>.\<close>

type_synonym Values = "string \<rightharpoonup> string list"

text \<open>
  The Client. \<open>'cl\<close> stands for the \<^verbatim>\<open>http.Client\<close> values and \<open>'ua\<close> for the
  \<^verbatim>\<open>data.UserAgent\<close> values; both fields are pointers.
\<close>

record ('ua, 'cl) Client =
  baseURL :: string
  client :: "'cl option"
  userAgent :: "'ua option"

record Request =
  Action :: reqAction
  URL :: string
  Values :: "Values option"

text \<open>
  The part of \<^verbatim>\<open>http.Request\<close> that the package sets: the method, the URL
  (a \<^verbatim>\<open>*url.URL\<close>, the parse of a string; \<open>'url\<close> stands for these values), the
  header (\<^verbatim>\<open>map[string][]string\<close>) and the body (\<^verbatim>\<open>nil\<close> or the bytes of the
  buffer).
\<close>

type_synonym Header = "string \<rightharpoonup> string list"

record 'url http_Request =
  Method :: string
  ReqURL :: 'url
  ReqHeader :: Header
  ReqBody :: "bytes option"

text \<open>
  A response body is an \<^verbatim>\<open>io.ReadCloser\<close>: reading it to the end delivers \<open>data\<close>,
  or fails with \<open>readErr\<close>.
\<close>

record ReadCloser =
  data :: bytes
  readErr :: "string option"

record http_Response =
  StatusCode :: int
  ContentLength :: int
  Body :: "ReadCloser option"

record Config =
  ClientID :: string
  ClientSecret :: string
  TokenURL :: string

subsection \<open>Errors and results\<close>

text \<open>
  The errors the package creates with \<^verbatim>\<open>fmt.Errorf\<close>, and the errors of the
  libraries it passes on, tagged with the call they come from.
\<close>

datatype error =
    NoValues
  | NewRequestError string
  | TransportError string
  | EmptyBody
  | BadStatus int
  | ReadError string
  | UnmarshalError string
  | TokenError string

text \<open>A call returns a value, returns a non-nil error, or panics.\<close>

datatype 'a outcome = Value 'a | Failure error | Panic

text \<open>Decimal rendering of an integer, as \<^verbatim>\<open>%v\<close> prints an \<^verbatim>\<open>int\<close>.\<close>

definition digit :: "nat \<Rightarrow> char" where
  "digit d = ''0123456789'' ! d"

function digits :: "nat \<Rightarrow> string" where
  "digits n = (if n < 10 then [digit n] else digits (n div 10) @ [digit (n mod 10)])"
  by pat_completeness auto
termination
  by (relation "measure id") auto

definition itoa :: "int \<Rightarrow> string" where
  "itoa i = (if i < 0 then CHR ''-'' # digits (nat (- i)) else digits (nat i))"

text \<open>The message of an error (\<^verbatim>\<open>err.Error()\<close>).\<close>

fun Error :: "error \<Rightarrow> string" where
  "Error NoValues = ''no values for POST body''"
| "Error (NewRequestError m) = m"
| "Error (TransportError m) = m"
| "Error EmptyBody = ''empty response body''"
| "Error (BadStatus code) = ''bad status: '' @ itoa code @ [CHR 0x0A]"
| "Error (ReadError m) = ''reading response body failed: '' @ m"
| "Error (UnmarshalError m) = m"
| "Error (TokenError m) = m"

subsection \<open>The libraries and the network\<close>

text \<open>
  What the package calls and does not define is a parameter:
  \<^item> \<open>Encode\<close>: \<^verbatim>\<open>url.Values.Encode\<close>;
  \<^item> \<open>url_Parse\<close>: the URL that \<^verbatim>\<open>http.NewRequest\<close> makes of its string, or the
    message of the parse error. The URL need not print as the string it was parsed
    from: a space in the path is printed escaped;
  \<^item> the getters of \<^verbatim>\<open>data.UserAgent\<close>, functions of the pointer (TestClient
    leaves the pointer nil);
  \<^item> \<open>transport\<close>: what the \<^verbatim>\<open>http.Client\<close> obtains for a request, a step of
    the network: the message of an error, or a response, whose Body may be nil;
  \<^item> \<open>nilBodyError\<close>: the message with which \<^verbatim>\<open>http.Client.Do\<close> refuses a
    response that has a nil Body and a positive ContentLength;
  \<^item> \<open>Unmarshal\<close>: \<^verbatim>\<open>json.Unmarshal\<close>, which returns an error or nil and
    updates the target;
  \<^item> \<open>PasswordCredentialsToken\<close> and \<open>conf_Client\<close> of \<^verbatim>\<open>oauth2.Config\<close>.
\<close>

record ('ua, 'cl, 'tok, 'net, 'v, 'url) env =
  Encode :: "Values \<Rightarrow> string"
  url_Parse :: "string \<Rightarrow> string + 'url"
  GetUserAgent :: "'ua option \<Rightarrow> string"
  GetClientId :: "'ua option \<Rightarrow> string"
  GetClientSecret :: "'ua option \<Rightarrow> string"
  GetUsername :: "'ua option \<Rightarrow> string"
  GetPassword :: "'ua option \<Rightarrow> string"
  transport :: "'cl \<Rightarrow> 'url http_Request \<Rightarrow> 'net \<Rightarrow> (string + http_Response) \<times> 'net"
  nilBodyError :: "'cl \<Rightarrow> 'url http_Request \<Rightarrow> http_Response \<Rightarrow> string"
  Unmarshal :: "bytes \<Rightarrow> 'v \<Rightarrow> string option \<times> 'v"
  PasswordCredentialsToken :: "Config \<Rightarrow> string \<Rightarrow> string \<Rightarrow> 'net \<Rightarrow> (string + 'tok) \<times> 'net"
  conf_Client :: "Config \<Rightarrow> 'tok \<Rightarrow> 'cl"

text \<open>
  The world outside the program: the state of the network, and a trace of what the
  program did to it, in order: the requests handed to the transport, and the reads
  and closes of response bodies.
\<close>

datatype 'url event = RoundTrip "'url http_Request" | BodyRead | BodyClose

fun sent :: "'url event list \<Rightarrow> 'url http_Request list" where
  "sent [] = []"
| "sent (RoundTrip q # evs) = q # sent evs"
| "sent (_ # evs) = sent evs"

record ('url, 'net) world =
  net :: 'net
  trace :: "'url event list"

subsection \<open>net/http as the package uses it\<close>

text \<open>
  \<^verbatim>\<open>http.NewRequest(method, urlStr, body)\<close> fails when the URL does not parse, and
  otherwise returns a request with the method, the parsed URL, an empty header and
  the body.
\<close>

definition NewRequest ::
  "('ua, 'cl, 'tok, 'net, 'v, 'url) env \<Rightarrow> string \<Rightarrow> string \<Rightarrow> bytes option
    \<Rightarrow> error + 'url http_Request" where
  "NewRequest env method urlStr body =
     (case url_Parse env urlStr of
        Inl m \<Rightarrow> Inl (NewRequestError m)
      | Inr u \<Rightarrow> Inr \<lparr>Method = method, ReqURL = u, ReqHeader = Map.empty, ReqBody = body\<rparr>)"

text \<open>
  The methods of \<^verbatim>\<open>http.Header\<close> store and look up a key in its canonical
  spelling (\<^verbatim>\<open>textproto.CanonicalMIMEHeaderKey\<close>): the first letter and every
  letter after a hyphen in upper case, the other letters in lower case. A key
  with a byte that is not a header field byte is left as it is.
\<close>

definition validHeaderFieldByte :: "char \<Rightarrow> bool" where
  "validHeaderFieldByte c =
     (c \<in> set (''!#$%&*+-.^_|~0123456789abcdefghijklmnopqrstuvwxyzABCDEFGHIJKLMNOPQRSTUVWXYZ''
               @ [CHR 0x27, CHR 0x60]))"

definition toUpper :: "char \<Rightarrow> char" where
  "toUpper c =
     (case map_of (zip ''abcdefghijklmnopqrstuvwxyz'' ''ABCDEFGHIJKLMNOPQRSTUVWXYZ'') c of
        Some u \<Rightarrow> u
      | None \<Rightarrow> c)"

definition toLower :: "char \<Rightarrow> char" where
  "toLower c =
     (case map_of (zip ''ABCDEFGHIJKLMNOPQRSTUVWXYZ'' ''abcdefghijklmnopqrstuvwxyz'') c of
        Some l \<Rightarrow> l
      | None \<Rightarrow> c)"

definition letterCase :: "bool \<Rightarrow> char \<Rightarrow> char" where
  "letterCase upper c = (if upper then toUpper c else toLower c)"

fun canonical :: "bool \<Rightarrow> string \<Rightarrow> string" where
  "canonical upper [] = []"
| "canonical upper (c # cs) =
     letterCase upper c # canonical (letterCase upper c = CHR ''-'') cs"

definition CanonicalMIMEHeaderKey :: "string \<Rightarrow> string" where
  "CanonicalMIMEHeaderKey s = (if list_all validHeaderFieldByte s then canonical True s else s)"

definition Header_Set :: "string \<Rightarrow> string \<Rightarrow> Header \<Rightarrow> Header" where
  "Header_Set key v h = h(CanonicalMIMEHeaderKey key \<mapsto> [v])"

definition Header_Add :: "string \<Rightarrow> string \<Rightarrow> Header \<Rightarrow> Header" where
  "Header_Add key v h =
     h(CanonicalMIMEHeaderKey key \<mapsto>
         (case h (CanonicalMIMEHeaderKey key) of None \<Rightarrow> [] | Some vs \<Rightarrow> vs) @ [v])"

text \<open>\<^verbatim>\<open>Header.Get\<close>: the first value stored under the key, or the empty string.\<close>

definition Header_Get :: "string \<Rightarrow> Header \<Rightarrow> string" where
  "Header_Get key h =
     (case h (CanonicalMIMEHeaderKey key) of
        None \<Rightarrow> []
      | Some [] \<Rightarrow> []
      | Some (v # vs) \<Rightarrow> v)"

text \<open>
  \<^verbatim>\<open>http.Client.Do\<close> passes on the error of the transport. It never returns a
  response with a nil Body: when the transport delivers one, it refuses it if the
  ContentLength is positive and the method is not HEAD, and otherwise puts an
  empty reader in its place.
\<close>

definition client_Do ::
  "('ua, 'cl, 'tok, 'net, 'v, 'url) env \<Rightarrow> 'cl \<Rightarrow> 'url http_Request \<Rightarrow> 'net
    \<Rightarrow> (string + http_Response) \<times> 'net" where
  "client_Do env cl req n =
     (case transport env cl req n of
        (Inl m, n') \<Rightarrow> (Inl m, n')
      | (Inr resp, n') \<Rightarrow>
          (case Body resp of
             Some body \<Rightarrow> (Inr resp, n')
           | None \<Rightarrow>
               if 0 < ContentLength resp \<and> Method req \<noteq> ''HEAD''
               then (Inl (nilBodyError env cl req resp), n')
               else (Inr (resp\<lparr>Body := Some \<lparr>data = [], readErr = None\<rparr>\<rparr>), n')))"

definition ReadAll :: "ReadCloser \<Rightarrow> string + bytes" where
  "ReadAll b = (case readErr b of Some m \<Rightarrow> Inl m | None \<Rightarrow> Inr (data b))"

subsection \<open>The package\<close>

text \<open>
  postRequest and getRequest return a request and a nil error, or a nil request and
  an error: a sum.
\<close>

definition postRequest ::
  "('ua, 'cl, 'tok, 'net, 'v, 'url) env \<Rightarrow> string \<Rightarrow> Values option \<Rightarrow> error + 'url http_Request" where
  "postRequest env url vals =
     (case vals of
        None \<Rightarrow> Inl NoValues
      | Some vs \<Rightarrow>
          (case NewRequest env ''POST'' url (Some (Encode env vs)) of
             Inl err \<Rightarrow> Inl err
           | Inr req \<Rightarrow>
               Inr (req\<lparr>ReqHeader := Header_Set ''content-type'' contentType (ReqHeader req)\<rparr>)))"

definition getRequest ::
  "('ua, 'cl, 'tok, 'net, 'v, 'url) env \<Rightarrow> string \<Rightarrow> Values option \<Rightarrow> error + 'url http_Request" where
  "getRequest env url vals =
     (let reqURL = (case vals of None \<Rightarrow> url | Some vs \<Rightarrow> url @ ''?'' @ Encode env vs)
      in NewRequest env ''GET'' reqURL None)"

text \<open>The assignment \<^verbatim>\<open>req, err = f(...)\<close> of such a result to two variables.\<close>

definition assigned :: "error + 'a \<Rightarrow> 'a option \<times> error option" where
  "assigned x = (case x of Inl err \<Rightarrow> (None, Some err) | Inr v \<Rightarrow> (Some v, None))"

text \<open>
  The variables \<^verbatim>\<open>req\<close> and \<^verbatim>\<open>err\<close> of buildRequest after its
  \<^verbatim>\<open>if ... else if\<close>: both are declared nil, and no branch assigns them when the
  action is neither GET nor POST.
\<close>

definition buildRequest_vars ::
  "('ua, 'cl, 'tok, 'net, 'v, 'url) env \<Rightarrow> ('ua, 'cl) Client \<Rightarrow> Request
    \<Rightarrow> 'url http_Request option \<times> error option" where
  "buildRequest_vars env c r =
     (let callURL = baseURL c @ URL r
      in if Action r = GET then assigned (getRequest env callURL (Values r))
         else if Action r = POST then assigned (postRequest env callURL (Values r))
         else (None, None))"

text \<open>\<^verbatim>\<open>req.Header.Add\<close> on a nil \<^verbatim>\<open>req\<close> is a nil pointer dereference.\<close>

definition buildRequest ::
  "('ua, 'cl, 'tok, 'net, 'v, 'url) env \<Rightarrow> ('ua, 'cl) Client \<Rightarrow> Request
    \<Rightarrow> 'url http_Request outcome" where
  "buildRequest env c r =
     (case buildRequest_vars env c r of
        (_, Some err) \<Rightarrow> Failure err
      | (None, None) \<Rightarrow> Panic
      | (Some req, None) \<Rightarrow>
          Value (req\<lparr>ReqHeader :=
                   Header_Add ''user-agent'' (GetUserAgent env (userAgent c)) (ReqHeader req)\<rparr>))"

text \<open>
  doRequest. \<^verbatim>\<open>c.client.Do\<close> on a nil \<^verbatim>\<open>c.client\<close> panics. The close of the body
  is deferred after the two checks, so it runs on the two returns that follow it.
  The check for a nil Body is kept as the source has it, although \<open>client_Do\<close>
  never delivers one.
\<close>

definition doRequest ::
  "('ua, 'cl, 'tok, 'net, 'v, 'url) env \<Rightarrow> ('ua, 'cl) Client \<Rightarrow> 'url http_Request
    \<Rightarrow> ('url, 'net) world \<Rightarrow> bytes outcome \<times> ('url, 'net) world" where
  "doRequest env c r w =
     (case client c of
        None \<Rightarrow> (Panic, w)
      | Some cl \<Rightarrow>
          (case client_Do env cl r (net w) of
             (Inl m, n) \<Rightarrow>
               (Failure (TransportError m), \<lparr>net = n, trace = trace w @ [RoundTrip r]\<rparr>)
           | (Inr resp, n) \<Rightarrow>
               (case Body resp of
                  None \<Rightarrow> (Failure EmptyBody, \<lparr>net = n, trace = trace w @ [RoundTrip r]\<rparr>)
                | Some body \<Rightarrow>
                    if StatusCode resp \<noteq> StatusOK
                    then (Failure (BadStatus (StatusCode resp)),
                          \<lparr>net = n, trace = trace w @ [RoundTrip r]\<rparr>)
                    else (case ReadAll body of
                            Inl m \<Rightarrow>
                              (Failure (ReadError m),
                               \<lparr>net = n, trace = trace w @ [RoundTrip r, BodyRead, BodyClose]\<rparr>)
                          | Inr buf \<Rightarrow>
                              (Value buf,
                               \<lparr>net = n, trace = trace w @ [RoundTrip r, BodyRead, BodyClose]\<rparr>)))))"

text \<open>
  Do returns nil (\<open>Value ()\<close>) or an error, or panics. The result carries the Client
  after the call, the target after the call and the world after the call.
\<close>

definition Do ::
  "('ua, 'cl, 'tok, 'net, 'v, 'url) env \<Rightarrow> ('ua, 'cl) Client \<Rightarrow> Request \<Rightarrow> 'v
    \<Rightarrow> ('url, 'net) world
    \<Rightarrow> unit outcome \<times> ('ua, 'cl) Client \<times> 'v \<times> ('url, 'net) world" where
  "Do env c r response w =
     (case buildRequest env c r of
        Panic \<Rightarrow> (Panic, c, response, w)
      | Failure err \<Rightarrow> (Failure err, c, response, w)
      | Value req \<Rightarrow>
          (case doRequest env c req w of
             (Panic, w') \<Rightarrow> (Panic, c, response, w')
           | (Failure err, w') \<Rightarrow> (Failure err, c, response, w')
           | (Value resp, w') \<Rightarrow>
               (case Unmarshal env resp response of
                  (None, v) \<Rightarrow> (Value (), c, v, w')
                | (Some m, v) \<Rightarrow> (Failure (UnmarshalError m), c, v, w'))))"

text \<open>oauth returns nil or an error, and the Client with its \<^verbatim>\<open>client\<close> field set on success.\<close>

definition oauth ::
  "('ua, 'cl, 'tok, 'net, 'v, 'url) env \<Rightarrow> ('ua, 'cl) Client \<Rightarrow> string
    \<Rightarrow> ('url, 'net) world
    \<Rightarrow> error option \<times> ('ua, 'cl) Client \<times> ('url, 'net) world" where
  "oauth env c auth w =
     (let conf = \<lparr>ClientID = GetClientId env (userAgent c),
                  ClientSecret = GetClientSecret env (userAgent c),
                  TokenURL = auth\<rparr>
      in case PasswordCredentialsToken env conf
                (GetUsername env (userAgent c)) (GetPassword env (userAgent c)) (net w) of
           (Inl m, n) \<Rightarrow> (Some (TokenError m), c, w\<lparr>net := n\<rparr>)
         | (Inr token, n) \<Rightarrow>
             (None, c\<lparr>client := Some (conf_Client env conf token)\<rparr>, w\<lparr>net := n\<rparr>))"

text \<open>
  NewClient returns the pointer to the Client it allocated, which oauth has updated
  through the same pointer, and the error of oauth.
\<close>

definition NewClient ::
  "('ua, 'cl, 'tok, 'net, 'v, 'url) env \<Rightarrow> 'ua option \<Rightarrow> ('url, 'net) world
    \<Rightarrow> ('ua, 'cl) Client option \<times> error option \<times> ('url, 'net) world" where
  "NewClient env ua w =
     (case oauth env \<lparr>baseURL = baseURL_const, client = None, userAgent = ua\<rparr> authURL w of
        (err, c, w') \<Rightarrow> (Some c, err, w'))"

definition TestClient :: "'cl option \<Rightarrow> string \<Rightarrow> ('ua, 'cl) Client" where
  "TestClient c url = \<lparr>baseURL = url, client = c, userAgent = None\<rparr>"

subsection \<open>A sample environment\<close>

text \<open>
  A small environment on which the model can be run: the identification object
  with nil-safe getters; a URL parse that refuses control characters and keeps the
  string, with spaces escaped; a transport that answers every request with the
  reply it was made with and counts the calls; a decoder that rejects empty input
  and otherwise stores the text; and a token endpoint that accepts one password.
\<close>

record UserAgent =
  user_agent :: string
  client_id :: string
  client_secret :: string
  username :: string
  password :: string

definition getter :: "('a \<Rightarrow> string) \<Rightarrow> 'a option \<Rightarrow> string" where
  "getter f p = (case p of None \<Rightarrow> [] | Some m \<Rightarrow> f m)"

definition sample_reply :: "string + http_Response" where
  "sample_reply =
     Inr \<lparr>StatusCode = 200, ContentLength = 2, Body = Some \<lparr>data = ''{}'', readErr = None\<rparr>\<rparr>"

definition sample_Parse :: "string \<Rightarrow> string + string" where
  "sample_Parse u =
     (if list_ex (\<lambda>c. of_char c < (32::nat) \<or> c = CHR 0x7F) u
      then Inl ''net/url: invalid control character in URL''
      else Inr (concat (map (\<lambda>c. if c = CHR '' '' then ''%20'' else [c]) u)))"

definition sample_env ::
  "(UserAgent, string + http_Response, string, nat, bytes, string) env" where
  "sample_env =
     \<lparr>Encode = (\<lambda>vs. case vs ''q'' of Some (x # _) \<Rightarrow> ''q='' @ x | _ \<Rightarrow> []),
      url_Parse = sample_Parse,
      GetUserAgent = getter user_agent,
      GetClientId = getter client_id,
      GetClientSecret = getter client_secret,
      GetUsername = getter username,
      GetPassword = getter password,
      transport = (\<lambda>cl req n. (cl, Suc n)),
      nilBodyError = (\<lambda>cl req resp. ''http: RoundTripper returned a nil Body''),
      Unmarshal = (\<lambda>buf v. if buf = [] then (Some ''unexpected end of JSON input'', v)
                              else (None, buf)),
      PasswordCredentialsToken = (\<lambda>conf user pass n.
         (if pass = ''hunter2'' then Inr ''token'' else Inl ''oauth2: cannot fetch token'',
          Suc n)),
      conf_Client = (\<lambda>conf tok. sample_reply)\<rparr>"

definition sample_agent :: UserAgent where
  "sample_agent =
     \<lparr>user_agent = ''graw:test:0.1'', client_id = ''id'', client_secret = ''shh'',
      username = ''bot'', password = ''wrong''\<rparr>"

definition world0 :: "(string, nat) world" where
  "world0 = \<lparr>net = 0, trace = []\<rparr>"

section \<open>Properties\<close>

subsection \<open>The decimal rendering of the status code\<close>

text \<open>
  Two integers with the same rendering are equal, so the message of a bad-status
  error determines the status code.
\<close>

lemma digit_inj: "a < 10 \<Longrightarrow> b < 10 \<Longrightarrow> digit a = digit b \<Longrightarrow> a = b"
proof -
  assume a: "a < 10" and b: "b < 10" and eq: "digit a = digit b"
  have "distinct ''0123456789''"
    by simp
  moreover have "a < length ''0123456789''" "b < length ''0123456789''"
    using a b by simp_all
  ultimately show "a = b"
    using eq unfolding digit_def by (simp only: nth_eq_iff_index_eq)
qed

lemma digit_not_minus: "d < 10 \<Longrightarrow> digit d \<noteq> CHR ''-''"
proof -
  assume "d < 10"
  then have "digit d \<in> set ''0123456789''"
    unfolding digit_def by (intro nth_mem) simp
  then show ?thesis
    by auto
qed

lemma digits_not_Nil: "digits n \<noteq> []"
  by (subst digits.simps) simp

lemma digits_inj: "digits n = digits m \<Longrightarrow> n = m"
proof (induction n arbitrary: m rule: digits.induct)
  case (1 n)
  show ?case
  proof (cases "n < 10")
    case small: True
    show ?thesis
    proof (cases "m < 10")
      case True
      with small "1.prems" show ?thesis
        by (simp add: digit_inj)
    next
      case False
      with small "1.prems" have "[digit n] = digits (m div 10) @ [digit (m mod 10)]"
        by (subst (asm) digits.simps, subst (asm) (2) digits.simps) simp
      then show ?thesis
        using digits_not_Nil [of "m div 10"] by simp
    qed
  next
    case large: False
    show ?thesis
    proof (cases "m < 10")
      case True
      with large "1.prems" have "digits (n div 10) @ [digit (n mod 10)] = [digit m]"
        by (subst (asm) digits.simps, subst (asm) (2) digits.simps) simp
      then show ?thesis
        using digits_not_Nil [of "n div 10"] by simp
    next
      case False
      with large "1.prems"
      have "digits (n div 10) @ [digit (n mod 10)] = digits (m div 10) @ [digit (m mod 10)]"
        by (subst (asm) digits.simps, subst (asm) (2) digits.simps) simp
      then have d: "digits (n div 10) = digits (m div 10)"
        and r: "digit (n mod 10) = digit (m mod 10)"
        by simp_all
      have "n div 10 = m div 10"
        using "1.IH" [OF large d] .
      moreover have "n mod 10 = m mod 10"
        using r by (simp add: digit_inj)
      ultimately show ?thesis
        by (metis div_mult_mod_eq)
    qed
  qed
qed

lemma hd_digits: "hd (digits n) \<noteq> CHR ''-''"
proof (induction n rule: digits.induct)
  case (1 n)
  show ?case
  proof (cases "n < 10")
    case True
    then show ?thesis
      by (subst digits.simps) (simp add: digit_not_minus)
  next
    case False
    then show ?thesis
      using "1.IH" digits_not_Nil [of "n div 10"]
      by (subst digits.simps) simp
  qed
qed

lemma itoa_inj: "itoa a = itoa b \<Longrightarrow> a = b"
proof -
  assume eq: "itoa a = itoa b"
  have neg: "False" if "i < 0" "\<not> j < 0" "itoa i = itoa j" for i j
  proof -
    from that have "CHR ''-'' # digits (nat (- i)) = digits (nat j)"
      by (simp add: itoa_def)
    then have "hd (digits (nat j)) = CHR ''-''"
      by (metis list.sel(1))
    then show False
      using hd_digits by blast
  qed
  consider "a < 0" "b < 0" | "a < 0" "\<not> b < 0" | "\<not> a < 0" "b < 0" | "\<not> a < 0" "\<not> b < 0"
    by blast
  then show "a = b"
  proof cases
    case 1
    with eq have "digits (nat (- a)) = digits (nat (- b))"
      by (simp add: itoa_def)
    then have "nat (- a) = nat (- b)"
      by (rule digits_inj)
    with 1 show ?thesis by simp
  next
    case 2
    with eq neg show ?thesis by blast
  next
    case 3
    with eq neg [of b a] show ?thesis by simp
  next
    case 4
    with eq have "digits (nat a) = digits (nat b)"
      by (simp add: itoa_def)
    then have "nat a = nat b"
      by (rule digits_inj)
    with 4 show ?thesis by simp
  qed
qed

lemma Error_BadStatus_inj: "Error (BadStatus a) = Error (BadStatus b) \<Longrightarrow> a = b"
  by (simp add: itoa_inj)

subsection \<open>What each function computes\<close>

lemma GET_neq_POST: "GET \<noteq> POST"
  by (simp add: GET_def POST_def)

lemma Canonical_user_agent: "CanonicalMIMEHeaderKey ''user-agent'' = ''User-Agent''"
  by (simp add: CanonicalMIMEHeaderKey_def validHeaderFieldByte_def letterCase_def
      toUpper_def toLower_def)

lemma Canonical_content_type: "CanonicalMIMEHeaderKey ''content-type'' = ''Content-Type''"
  by (simp add: CanonicalMIMEHeaderKey_def validHeaderFieldByte_def letterCase_def
      toUpper_def toLower_def)

lemma getRequest_eq:
  "getRequest env url vals =
     (case url_Parse env (url @ (case vals of None \<Rightarrow> [] | Some vs \<Rightarrow> ''?'' @ Encode env vs)) of
        Inl m \<Rightarrow> Inl (NewRequestError m)
      | Inr u \<Rightarrow> Inr \<lparr>Method = ''GET'', ReqURL = u, ReqHeader = Map.empty, ReqBody = None\<rparr>)"
  by (simp add: getRequest_def NewRequest_def split: option.splits)

lemma postRequest_eq:
  "postRequest env url (Some vs) =
     (case url_Parse env url of
        Inl m \<Rightarrow> Inl (NewRequestError m)
      | Inr u \<Rightarrow> Inr \<lparr>Method = ''POST'', ReqURL = u,
                      ReqHeader = [''Content-Type'' \<mapsto> [contentType]],
                      ReqBody = Some (Encode env vs)\<rparr>)"
  by (simp add: postRequest_def NewRequest_def Header_Set_def Canonical_content_type
      split: sum.splits)

lemma buildRequest_POST_nil:
  "Action r = POST \<Longrightarrow> Values r = None \<Longrightarrow> buildRequest env c r = Failure NoValues"
  using GET_neq_POST
  by (simp add: buildRequest_def buildRequest_vars_def postRequest_def assigned_def)

lemma buildRequest_vars_other:
  "Action r \<noteq> GET \<Longrightarrow> Action r \<noteq> POST \<Longrightarrow> buildRequest_vars env c r = (None, None)"
  by (simp add: buildRequest_vars_def)

lemma buildRequest_not_EmptyBody: "buildRequest env c r \<noteq> Failure EmptyBody"
  by (auto simp: buildRequest_def buildRequest_vars_def getRequest_def postRequest_def
      NewRequest_def assigned_def Let_def split: option.splits sum.splits if_splits)

lemma client_Do_Body:
  "client_Do env cl q n = (Inr resp, n') \<Longrightarrow> Body resp \<noteq> None"
  by (auto simp: client_Do_def split: prod.splits sum.splits option.splits if_splits)

lemma client_Do_nil_Body:
  "transport env cl q n = (Inr resp, n') \<Longrightarrow> Body resp = None \<Longrightarrow>
   \<not> (0 < ContentLength resp \<and> Method q \<noteq> ''HEAD'') \<Longrightarrow>
   client_Do env cl q n = (Inr (resp\<lparr>Body := Some \<lparr>data = [], readErr = None\<rparr>\<rparr>), n')"
  by (simp add: client_Do_def)

lemma doRequest_nil_client:
  "client c = None \<Longrightarrow> doRequest env c q w = (Panic, w)"
  by (simp add: doRequest_def)

lemma doRequest_response:
  "client c = Some cl \<Longrightarrow> client_Do env cl q (net w) = (Inr resp, n) \<Longrightarrow>
   doRequest env c q w =
     (case Body resp of
        None \<Rightarrow> (Failure EmptyBody, \<lparr>net = n, trace = trace w @ [RoundTrip q]\<rparr>)
      | Some body \<Rightarrow>
          if StatusCode resp \<noteq> StatusOK
          then (Failure (BadStatus (StatusCode resp)), \<lparr>net = n, trace = trace w @ [RoundTrip q]\<rparr>)
          else (case readErr body of
                  Some m \<Rightarrow> (Failure (ReadError m),
                             \<lparr>net = n, trace = trace w @ [RoundTrip q, BodyRead, BodyClose]\<rparr>)
                | None \<Rightarrow> (Value (data body),
                           \<lparr>net = n, trace = trace w @ [RoundTrip q, BodyRead, BodyClose]\<rparr>)))"
  by (simp add: doRequest_def ReadAll_def split: option.splits)

lemma doRequest_not_EmptyBody: "fst (doRequest env c q w) \<noteq> Failure EmptyBody"
proof (cases "client c")
  case None
  then show ?thesis by (simp add: doRequest_nil_client)
next
  case (Some cl)
  obtain res n where res: "client_Do env cl q (net w) = (res, n)"
    by (cases "client_Do env cl q (net w)")
  show ?thesis
  proof (cases res)
    case (Inl m)
    with Some res show ?thesis by (simp add: doRequest_def)
  next
    case (Inr resp)
    with res have "Body resp \<noteq> None"
      using client_Do_Body [of env cl q "net w" resp n] by simp
    with Some res Inr show ?thesis
      by (auto simp: doRequest_response split: option.splits)
  qed
qed

lemma Do_built:
  "buildRequest env c r = Value q \<Longrightarrow>
   Do env c r v w =
     (case doRequest env c q w of
        (Panic, w') \<Rightarrow> (Panic, c, v, w')
      | (Failure err, w') \<Rightarrow> (Failure err, c, v, w')
      | (Value buf, w') \<Rightarrow>
          (case Unmarshal env buf v of
             (None, v') \<Rightarrow> (Value (), c, v', w')
           | (Some m, v') \<Rightarrow> (Failure (UnmarshalError m), c, v', w')))"
  by (simp add: Do_def)

lemma Do_not_EmptyBody: "fst (Do env c r v w) \<noteq> Failure EmptyBody"
proof (cases "buildRequest env c r")
  case (Value q)
  then show ?thesis
    using doRequest_not_EmptyBody [of env c q w]
    by (auto simp: Do_built split: prod.splits outcome.splits option.splits)
next
  case (Failure err)
  then show ?thesis
    using buildRequest_not_EmptyBody [of env c r] by (simp add: Do_def)
next
  case Panic
  then show ?thesis by (simp add: Do_def)
qed

lemma Do_client: "fst (snd (Do env c r v w)) = c"
  by (simp add: Do_def split: outcome.splits prod.splits option.splits)

lemma sent_append: "sent (xs @ ys) = sent xs @ sent ys"
  by (induction xs rule: sent.induct) simp_all

lemma doRequest_trace:
  "\<exists>evs. trace (snd (doRequest env c q w)) = trace w @ evs \<and>
         sent evs = (case client c of None \<Rightarrow> [] | Some cl \<Rightarrow> [q])"
  by (auto simp: doRequest_def ReadAll_def split: option.splits sum.splits prod.splits)

lemma Do_nil_client:
  "client c = None \<Longrightarrow> buildRequest env c r = Value q \<Longrightarrow> Do env c r v w = (Panic, c, v, w)"
  by (simp add: Do_built doRequest_nil_client)

lemma Do_nil_client_world:
  "client c = None \<Longrightarrow> snd (snd (snd (Do env c r v w))) = w"
  by (cases "buildRequest env c r") (simp_all add: Do_nil_client, simp_all add: Do_def)

lemma Do_nil_client_fails:
  "client c = None \<Longrightarrow> fst (Do env c r v w) \<noteq> Value ()"
  by (cases "buildRequest env c r") (simp_all add: Do_nil_client, simp_all add: Do_def)

lemma Do_trace:
  "\<exists>evs. trace (snd (snd (snd (Do env c r v w)))) = trace w @ evs \<and>
         sent evs = (case buildRequest env c r of
                       Value q \<Rightarrow> (case client c of None \<Rightarrow> [] | Some cl \<Rightarrow> [q])
                     | _ \<Rightarrow> [])"
proof (cases "buildRequest env c r")
  case (Value q)
  obtain evs where evs: "trace (snd (doRequest env c q w)) = trace w @ evs"
      "sent evs = (case client c of None \<Rightarrow> [] | Some cl \<Rightarrow> [q])"
    using doRequest_trace by blast
  have "snd (snd (snd (Do env c r v w))) = snd (doRequest env c q w)"
    by (simp add: Do_built [OF Value] split: prod.splits outcome.splits option.splits)
  with evs Value show ?thesis by simp
next
  case (Failure err)
  then show ?thesis by (simp add: Do_def)
next
  case Panic
  then show ?thesis by (simp add: Do_def)
qed

lemma NewClient_failure:
  assumes "PasswordCredentialsToken env
             \<lparr>ClientID = GetClientId env ua, ClientSecret = GetClientSecret env ua,
              TokenURL = authURL\<rparr>
             (GetUsername env ua) (GetPassword env ua) (net w) = (Inl m, n)"
  shows "NewClient env ua w =
           (Some \<lparr>baseURL = baseURL_const, client = None, userAgent = ua\<rparr>,
            Some (TokenError m), w\<lparr>net := n\<rparr>)"
  using assms by (simp add: NewClient_def oauth_def)


lemma Do_not_OK_trace:
  assumes "buildRequest env c r = Value q"
    and "client c = Some cl"
    and "client_Do env cl q (net w) = (Inr resp, n)"
    and "StatusCode resp \<noteq> StatusOK"
  shows "trace (snd (snd (snd (Do env c r v w)))) = trace w @ [RoundTrip q]"
  using assms by (simp add: Do_built doRequest_response split: option.splits)

lemma Do_OK_trace:
  assumes "buildRequest env c r = Value q"
    and "client c = Some cl"
    and "client_Do env cl q (net w) = (Inr resp, n)"
    and "StatusCode resp = StatusOK"
  shows "trace (snd (snd (snd (Do env c r v w)))) =
           trace w @ [RoundTrip q, BodyRead, BodyClose]"
  using assms client_Do_Body [OF assms(3)]
  by (auto simp: Do_built doRequest_response split: option.splits prod.splits)

lemma Do_OK_read:
  assumes "buildRequest env c r = Value q"
    and "client c = Some cl"
    and "client_Do env cl q (net w) = (Inr resp, n)"
    and "StatusCode resp = StatusOK"
    and "Body resp = Some body"
    and "readErr body = None"
  shows "Do env c r v w =
           (case Unmarshal env (data body) v of
              (None, v') \<Rightarrow>
                (Value (), c, v', \<lparr>net = n, trace = trace w @ [RoundTrip q, BodyRead, BodyClose]\<rparr>)
            | (Some m, v') \<Rightarrow>
                (Failure (UnmarshalError m), c, v',
                 \<lparr>net = n, trace = trace w @ [RoundTrip q, BodyRead, BodyClose]\<rparr>))"
  using assms by (simp add: Do_built doRequest_response)

lemmas sample_defs =
  sample_env_def sample_reply_def sample_agent_def sample_Parse_def world0_def getter_def
  TestClient_def GET_def POST_def StatusOK_def contentType_def baseURL_const_def authURL_def

lemmas model_defs =
  Do_def buildRequest_def buildRequest_vars_def getRequest_def postRequest_def NewRequest_def
  assigned_def Header_Add_def Header_Set_def Header_Get_def Canonical_user_agent
  Canonical_content_type doRequest_def client_Do_def ReadAll_def NewClient_def oauth_def

subsection \<open>Requests that are not sent\<close>

text \<open>
  C1. A Request with Action POST and nil Values makes Do return the error
  "no values for POST body". The Client, the target and the world come back as they
  were: nothing was handed to the transport. This holds for a Client without a
  transport too, on which doRequest would panic.
\<close>

theorem Do_POST_without_values:
  "Action r = POST \<Longrightarrow> Values r = None \<Longrightarrow>
   Do env c r v w = (Failure NoValues, c, v, w) \<and>
   Error NoValues = ''no values for POST body''"
  by (simp add: Do_def buildRequest_POST_nil)

theorem Do_POST_without_values_witness:
  "Action \<lparr>Action = POST, URL = ''/submit'', Values = None\<rparr> = POST \<and>
   Values \<lparr>Action = POST, URL = ''/submit'', Values = None\<rparr> = None \<and>
   Do sample_env (TestClient (Some sample_reply) ''https://oauth.reddit.com/api'')
     \<lparr>Action = POST, URL = ''/submit'', Values = None\<rparr> [] world0 =
     (Failure NoValues, TestClient (Some sample_reply) ''https://oauth.reddit.com/api'', [], world0)"
  using Do_POST_without_values [of "\<lparr>Action = POST, URL = ''/submit'', Values = None\<rparr>"
      sample_env "TestClient (Some sample_reply) ''https://oauth.reddit.com/api''" "[]" world0]
  by simp

text \<open>
  C2. When the Action is neither GET nor POST, the variables \<^verbatim>\<open>req\<close> and
  \<^verbatim>\<open>err\<close> of buildRequest are both nil after the branches, the header
  attachment dereferences the nil request, and Do panics; it returns no error.
\<close>

theorem Do_unknown_action:
  "Action r \<noteq> GET \<Longrightarrow> Action r \<noteq> POST \<Longrightarrow>
   buildRequest_vars env c r = (None, None) \<and>
   buildRequest env c r = Panic \<and>
   Do env c r v w = (Panic, c, v, w)"
  by (simp add: Do_def buildRequest_def buildRequest_vars_other)

theorem Do_unknown_action_witness:
  "Action \<lparr>Action = 2, URL = ''/me'', Values = None\<rparr> \<noteq> GET \<and>
   Action \<lparr>Action = 2, URL = ''/me'', Values = None\<rparr> \<noteq> POST \<and>
   Do sample_env (TestClient (Some sample_reply) ''https://oauth.reddit.com/api'')
     \<lparr>Action = 2, URL = ''/me'', Values = None\<rparr> [] world0 =
     (Panic, TestClient (Some sample_reply) ''https://oauth.reddit.com/api'', [], world0)"
  using Do_unknown_action [of "\<lparr>Action = 2, URL = ''/me'', Values = None\<rparr>"
      sample_env "TestClient (Some sample_reply) ''https://oauth.reddit.com/api''" "[]" world0]
  by (simp add: GET_def POST_def)

subsection \<open>Responses that are rejected\<close>

text \<open>
  C3. For every response that \<^verbatim>\<open>c.client.Do\<close> returns with a status other than
  200, Do fails with the bad-status error of that status code, whatever the body
  holds; the message is "bad status: ", the code in decimal and a newline (by
  \<open>Error_BadStatus_inj\<close> the message determines the code). The request was sent
  once, and the target is untouched. A response that the transport delivers
  without a body is no exception: \<open>client_Do\<close> gives it an empty reader
  (\<open>client_Do_nil_Body\<close>), so the check for a nil Body lets it pass and the status
  check rejects it.
\<close>

theorem Do_bad_status:
  assumes "buildRequest env c r = Value q"
    and "client c = Some cl"
    and "client_Do env cl q (net w) = (Inr resp, n)"
    and "StatusCode resp \<noteq> StatusOK"
  shows "Do env c r v w =
           (Failure (BadStatus (StatusCode resp)), c, v,
            \<lparr>net = n, trace = trace w @ [RoundTrip q]\<rparr>) \<and>
         Error (BadStatus (StatusCode resp)) =
           ''bad status: '' @ itoa (StatusCode resp) @ [CHR 0x0A]"
  using assms client_Do_Body [OF assms(3)]
  by (auto simp: Do_built doRequest_response)

theorem Do_bad_status_witness:
  "buildRequest sample_env
      (TestClient (Some (Inr \<lparr>StatusCode = 404, ContentLength = 0, Body = None\<rparr>))
         ''https://oauth.reddit.com/api'')
      \<lparr>Action = GET, URL = ''/me'', Values = None\<rparr> =
     Value \<lparr>Method = ''GET'', ReqURL = ''https://oauth.reddit.com/api/me'',
            ReqHeader = [''User-Agent'' \<mapsto> ['''']], ReqBody = None\<rparr> \<and>
   transport sample_env (Inr \<lparr>StatusCode = 404, ContentLength = 0, Body = None\<rparr>)
      \<lparr>Method = ''GET'', ReqURL = ''https://oauth.reddit.com/api/me'',
       ReqHeader = [''User-Agent'' \<mapsto> ['''']], ReqBody = None\<rparr> (net world0) =
     (Inr \<lparr>StatusCode = 404, ContentLength = 0, Body = None\<rparr>, 1) \<and>
   client_Do sample_env (Inr \<lparr>StatusCode = 404, ContentLength = 0, Body = None\<rparr>)
      \<lparr>Method = ''GET'', ReqURL = ''https://oauth.reddit.com/api/me'',
       ReqHeader = [''User-Agent'' \<mapsto> ['''']], ReqBody = None\<rparr> (net world0) =
     (Inr \<lparr>StatusCode = 404, ContentLength = 0,
           Body = Some \<lparr>data = [], readErr = None\<rparr>\<rparr>, 1) \<and>
   (404::int) \<noteq> StatusOK \<and>
   Do sample_env
      (TestClient (Some (Inr \<lparr>StatusCode = 404, ContentLength = 0, Body = None\<rparr>))
         ''https://oauth.reddit.com/api'')
      \<lparr>Action = GET, URL = ''/me'', Values = None\<rparr> [] world0 =
     (Failure (BadStatus 404),
      TestClient (Some (Inr \<lparr>StatusCode = 404, ContentLength = 0, Body = None\<rparr>))
         ''https://oauth.reddit.com/api'',
      [],
      \<lparr>net = 1,
       trace = [RoundTrip \<lparr>Method = ''GET'', ReqURL = ''https://oauth.reddit.com/api/me'',
                           ReqHeader = [''User-Agent'' \<mapsto> ['''']], ReqBody = None\<rparr>]\<rparr>) \<and>
   Error (BadStatus 404) = ''bad status: 404'' @ [CHR 0x0A]"
proof -
  let ?resp = "\<lparr>StatusCode = 404, ContentLength = 0, Body = None\<rparr>"
  let ?resp' = "\<lparr>StatusCode = 404, ContentLength = 0,
                 Body = Some \<lparr>data = [], readErr = None\<rparr>\<rparr>"
  let ?c = "TestClient (Some (Inr ?resp)) ''https://oauth.reddit.com/api''
              :: (UserAgent, string + http_Response) Client"
  let ?r = "\<lparr>Action = GET, URL = ''/me'', Values = None\<rparr>"
  let ?q = "\<lparr>Method = ''GET'', ReqURL = ''https://oauth.reddit.com/api/me'',
             ReqHeader = [''User-Agent'' \<mapsto> ['''']], ReqBody = None\<rparr>"
  have built: "buildRequest sample_env ?c ?r = Value ?q"
    by (simp add: sample_defs model_defs)
  have cl: "client ?c = Some (Inr ?resp)"
    by (simp add: TestClient_def)
  have wire: "transport sample_env (Inr ?resp) ?q (net world0) = (Inr ?resp, 1)"
    by (simp add: sample_env_def world0_def)
  have reply: "client_Do sample_env (Inr ?resp) ?q (net world0) = (Inr ?resp', 1)"
    by (simp add: client_Do_def sample_env_def world0_def)
  have status: "StatusCode ?resp' \<noteq> StatusOK"
    by (simp add: StatusOK_def)
  have msg: "itoa 404 = ''404''"
    by (simp add: itoa_def digit_def)
  show ?thesis
    using Do_bad_status [OF built cl reply status, of "[]"] built wire reply status msg
    by (simp add: world0_def)
qed

text \<open>
  C4. A response with status 200 and a body of zero bytes: the body is not nil,
  so the check that returns "empty response body" lets it pass; it is read and
  handed to the decoder, and Do fails with the error of the decoder. The check
  tests for a nil Body, which \<^verbatim>\<open>c.client.Do\<close> never returns, so Do returns
  "empty response body" on no input at all (\<open>Do_not_EmptyBody\<close>).
\<close>

theorem Do_zero_length_body:
  "StatusCode \<lparr>StatusCode = 200, ContentLength = 0,
               Body = Some \<lparr>data = [], readErr = None\<rparr>\<rparr> = StatusOK \<and>
   data \<lparr>data = [], readErr = None\<rparr> = [] \<and>
   fst (Do sample_env
          (TestClient (Some (Inr \<lparr>StatusCode = 200, ContentLength = 0,
                                   Body = Some \<lparr>data = [], readErr = None\<rparr>\<rparr>))
             ''https://oauth.reddit.com/api'')
          \<lparr>Action = GET, URL = ''/me'', Values = None\<rparr> [] world0) =
     Failure (UnmarshalError ''unexpected end of JSON input'') \<and>
   Failure (UnmarshalError ''unexpected end of JSON input'') \<noteq> (Failure EmptyBody :: unit outcome)"
  by (simp add: sample_defs model_defs)

text \<open>
  C5. A response with status 404 and a body: doRequest returns at the status
  check, before the close is deferred. The trace of the call holds the round trip
  only; the body is neither read nor closed. This is so for every status other
  than 200 (\<open>Do_not_OK_trace\<close>), while a body that comes with status 200 is read
  and closed whether or not the read fails (\<open>Do_OK_trace\<close>).
\<close>

theorem Do_bad_status_leaves_body_open:
  "Do sample_env
      (TestClient (Some (Inr \<lparr>StatusCode = 404, ContentLength = 4,
                               Body = Some \<lparr>data = ''gone'', readErr = None\<rparr>\<rparr>))
         ''https://oauth.reddit.com/api'')
      \<lparr>Action = GET, URL = ''/me'', Values = None\<rparr> [] world0 =
     (Failure (BadStatus 404),
      TestClient (Some (Inr \<lparr>StatusCode = 404, ContentLength = 4,
                               Body = Some \<lparr>data = ''gone'', readErr = None\<rparr>\<rparr>))
         ''https://oauth.reddit.com/api'',
      [],
      \<lparr>net = 1,
       trace = [RoundTrip \<lparr>Method = ''GET'', ReqURL = ''https://oauth.reddit.com/api/me'',
                           ReqHeader = [''User-Agent'' \<mapsto> ['''']], ReqBody = None\<rparr>]\<rparr>) \<and>
   BodyClose \<notin> set [RoundTrip \<lparr>Method = ''GET'', ReqURL = ''https://oauth.reddit.com/api/me'',
                           ReqHeader = [''User-Agent'' \<mapsto> ['''']], ReqBody = None\<rparr>]"
  by (simp add: sample_defs model_defs)

subsection \<open>The request that is built\<close>

text \<open>
  C6. For a Request with Action GET, buildRequest hands to \<^verbatim>\<open>http.NewRequest\<close>
  the base URL of the Client followed by the path of the Request, and after them
  "?" and the encoded Values exactly when Values is not nil. When that string
  parses, buildRequest returns the request with method GET, the parsed URL, no
  body and the user-agent header; when it does not, buildRequest returns the
  parse error.
\<close>

theorem buildRequest_GET_shape:
  assumes "Action r = GET"
  shows "buildRequest env c r =
           (case url_Parse env
                   (baseURL c @ URL r @
                    (case Values r of None \<Rightarrow> [] | Some vs \<Rightarrow> ''?'' @ Encode env vs)) of
              Inl m \<Rightarrow> Failure (NewRequestError m)
            | Inr u \<Rightarrow>
                Value \<lparr>Method = ''GET'', ReqURL = u,
                       ReqHeader = [''User-Agent'' \<mapsto> [GetUserAgent env (userAgent c)]],
                       ReqBody = None\<rparr>)"
  using assms
  by (simp add: buildRequest_def buildRequest_vars_def getRequest_eq assigned_def
      Header_Add_def Canonical_user_agent split: sum.splits)

theorem buildRequest_GET_shape_witness:
  "Action \<lparr>Action = GET, URL = ''/search'', Values = Some [''q'' \<mapsto> [''go'']]\<rparr> = GET \<and>
   url_Parse sample_env (''https://oauth.reddit.com/api'' @ ''/search'' @ ''?'' @ ''q=go'') =
     Inr ''https://oauth.reddit.com/api/search?q=go'' \<and>
   buildRequest sample_env (TestClient (Some sample_reply) ''https://oauth.reddit.com/api'')
      \<lparr>Action = GET, URL = ''/search'', Values = Some [''q'' \<mapsto> [''go'']]\<rparr> =
     Value \<lparr>Method = ''GET'', ReqURL = ''https://oauth.reddit.com/api/search?q=go'',
            ReqHeader = [''User-Agent'' \<mapsto> ['''']], ReqBody = None\<rparr> \<and>
   buildRequest sample_env (TestClient (Some sample_reply) ''https://oauth.reddit.com/api'')
      \<lparr>Action = GET, URL = ''/me'', Values = None\<rparr> =
     Value \<lparr>Method = ''GET'', ReqURL = ''https://oauth.reddit.com/api/me'',
            ReqHeader = [''User-Agent'' \<mapsto> ['''']], ReqBody = None\<rparr>"
  using buildRequest_GET_shape
      [of "\<lparr>Action = GET, URL = ''/search'', Values = Some [''q'' \<mapsto> [''go'']]\<rparr>" sample_env
        "TestClient (Some sample_reply) ''https://oauth.reddit.com/api''"]
    buildRequest_GET_shape
      [of "\<lparr>Action = GET, URL = ''/me'', Values = None\<rparr>" sample_env
        "TestClient (Some sample_reply) ''https://oauth.reddit.com/api''"]
  by (simp add: sample_env_def sample_Parse_def TestClient_def getter_def)

text \<open>
  C7. For a Request with Action POST and Values that are not nil, buildRequest
  returns, when the base URL followed by the path parses, the request with method
  POST, the parsed URL, the encoded Values as its body, and a header that holds
  application/x-www-form-urlencoded under content-type and what GetUserAgent gives
  for the Client under user-agent (stored under the canonical keys Content-Type
  and User-Agent, and found by \<^verbatim>\<open>Header.Get\<close> under either spelling); otherwise
  it returns the parse error.
\<close>

theorem buildRequest_POST_shape:
  assumes "Action r = POST"
    and "Values r = Some vs"
  shows "buildRequest env c r =
           (case url_Parse env (baseURL c @ URL r) of
              Inl m \<Rightarrow> Failure (NewRequestError m)
            | Inr u \<Rightarrow>
                Value \<lparr>Method = ''POST'', ReqURL = u,
                       ReqHeader = [''Content-Type'' \<mapsto> [''application/x-www-form-urlencoded''],
                                    ''User-Agent'' \<mapsto> [GetUserAgent env (userAgent c)]],
                       ReqBody = Some (Encode env vs)\<rparr>) \<and>
         (\<forall>q. buildRequest env c r = Value q \<longrightarrow>
              ReqBody q = Some (Encode env vs) \<and>
              Header_Get ''content-type'' (ReqHeader q) = ''application/x-www-form-urlencoded'' \<and>
              Header_Get ''user-agent'' (ReqHeader q) = GetUserAgent env (userAgent c))"
proof -
  have eq: "buildRequest env c r =
           (case url_Parse env (baseURL c @ URL r) of
              Inl m \<Rightarrow> Failure (NewRequestError m)
            | Inr u \<Rightarrow>
                Value \<lparr>Method = ''POST'', ReqURL = u,
                       ReqHeader = [''Content-Type'' \<mapsto> [''application/x-www-form-urlencoded''],
                                    ''User-Agent'' \<mapsto> [GetUserAgent env (userAgent c)]],
                       ReqBody = Some (Encode env vs)\<rparr>)"
    using assms GET_neq_POST
    by (simp add: buildRequest_def buildRequest_vars_def postRequest_eq assigned_def
        Header_Add_def Canonical_user_agent contentType_def split: sum.splits)
  show ?thesis
    unfolding eq
    by (simp add: Header_Get_def Canonical_user_agent Canonical_content_type split: sum.splits)
qed

theorem buildRequest_POST_shape_witness:
  "Action \<lparr>Action = POST, URL = ''/submit'', Values = Some [''q'' \<mapsto> [''go'']]\<rparr> = POST \<and>
   buildRequest sample_env
      \<lparr>baseURL = ''https://oauth.reddit.com/api'', client = Some sample_reply,
       userAgent = Some sample_agent\<rparr>
      \<lparr>Action = POST, URL = ''/submit'', Values = Some [''q'' \<mapsto> [''go'']]\<rparr> =
     Value \<lparr>Method = ''POST'', ReqURL = ''https://oauth.reddit.com/api/submit'',
            ReqHeader = [''Content-Type'' \<mapsto> [''application/x-www-form-urlencoded''],
                         ''User-Agent'' \<mapsto> [''graw:test:0.1'']],
            ReqBody = Some ''q=go''\<rparr> \<and>
   Header_Get ''content-type''
      [''Content-Type'' \<mapsto> [''application/x-www-form-urlencoded''],
       ''User-Agent'' \<mapsto> [''graw:test:0.1'']] = ''application/x-www-form-urlencoded'' \<and>
   Header_Get ''user-agent''
      [''Content-Type'' \<mapsto> [''application/x-www-form-urlencoded''],
       ''User-Agent'' \<mapsto> [''graw:test:0.1'']] = ''graw:test:0.1''"
proof -
  let ?c = "\<lparr>baseURL = ''https://oauth.reddit.com/api'', client = Some sample_reply,
             userAgent = Some sample_agent\<rparr>"
  let ?vs = "[''q'' \<mapsto> [''go'']]"
  let ?r = "\<lparr>Action = POST, URL = ''/submit'', Values = Some ?vs\<rparr>"
  let ?q = "\<lparr>Method = ''POST'', ReqURL = ''https://oauth.reddit.com/api/submit'',
             ReqHeader = [''Content-Type'' \<mapsto> [''application/x-www-form-urlencoded''],
                          ''User-Agent'' \<mapsto> [''graw:test:0.1'']],
             ReqBody = Some ''q=go''\<rparr>"
  have act: "Action ?r = POST"
    by simp
  have vals: "Values ?r = Some ?vs"
    by simp
  have shape: "buildRequest sample_env ?c ?r =
           (case url_Parse sample_env (baseURL ?c @ URL ?r) of
              Inl m \<Rightarrow> Failure (NewRequestError m)
            | Inr u \<Rightarrow>
                Value \<lparr>Method = ''POST'', ReqURL = u,
                       ReqHeader = [''Content-Type'' \<mapsto> [''application/x-www-form-urlencoded''],
                                    ''User-Agent'' \<mapsto> [GetUserAgent sample_env (userAgent ?c)]],
                       ReqBody = Some (Encode sample_env ?vs)\<rparr>)"
    and get: "\<forall>q. buildRequest sample_env ?c ?r = Value q \<longrightarrow>
              ReqBody q = Some (Encode sample_env ?vs) \<and>
              Header_Get ''content-type'' (ReqHeader q) = ''application/x-www-form-urlencoded'' \<and>
              Header_Get ''user-agent'' (ReqHeader q) = GetUserAgent sample_env (userAgent ?c)"
    using buildRequest_POST_shape [OF act vals, of sample_env ?c] by blast+
  have built: "buildRequest sample_env ?c ?r = Value ?q"
    using shape by (simp add: sample_env_def sample_Parse_def sample_agent_def getter_def)
  have "Header_Get ''content-type'' (ReqHeader ?q) = ''application/x-www-form-urlencoded''"
    and "Header_Get ''user-agent'' (ReqHeader ?q) = GetUserAgent sample_env (userAgent ?c)"
    using get built by blast+
  then show ?thesis
    using act built by (simp add: sample_env_def sample_agent_def getter_def)
qed

subsection \<open>Authentication\<close>

text \<open>
  C8. When the token exchange fails, NewClient returns the error of the exchange
  (not nil) and a Client that cannot be used: its \<^verbatim>\<open>client\<close> field is nil, and
  no call of Do on it returns nil or changes the world.
\<close>

theorem NewClient_exchange_fails:
  assumes "PasswordCredentialsToken env
             \<lparr>ClientID = GetClientId env ua, ClientSecret = GetClientSecret env ua,
              TokenURL = authURL\<rparr>
             (GetUsername env ua) (GetPassword env ua) (net w) = (Inl m, n)"
  shows "\<exists>c. NewClient env ua w = (Some c, Some (TokenError m), w\<lparr>net := n\<rparr>) \<and>
             client c = None \<and>
             (\<forall>r v w'. fst (Do env c r v w') \<noteq> Value () \<and>
                        snd (snd (snd (Do env c r v w'))) = w')"
proof -
  let ?c = "\<lparr>baseURL = baseURL_const, client = None, userAgent = ua\<rparr>"
  have "NewClient env ua w = (Some ?c, Some (TokenError m), w\<lparr>net := n\<rparr>)"
    using assms by (rule NewClient_failure)
  moreover have "client ?c = None"
    by simp
  ultimately show ?thesis
    using Do_nil_client_fails [of ?c env] Do_nil_client_world [of ?c env]
    by auto
qed

theorem NewClient_exchange_fails_witness:
  "PasswordCredentialsToken sample_env
     \<lparr>ClientID = GetClientId sample_env (Some sample_agent),
      ClientSecret = GetClientSecret sample_env (Some sample_agent),
      TokenURL = authURL\<rparr>
     (GetUsername sample_env (Some sample_agent)) (GetPassword sample_env (Some sample_agent))
     (net world0) = (Inl ''oauth2: cannot fetch token'', 1) \<and>
   (\<exists>c. NewClient sample_env (Some sample_agent) world0 =
          (Some c, Some (TokenError ''oauth2: cannot fetch token''), world0\<lparr>net := 1\<rparr>) \<and>
        client c = None)"
proof -
  have fails: "PasswordCredentialsToken sample_env
     \<lparr>ClientID = GetClientId sample_env (Some sample_agent),
      ClientSecret = GetClientSecret sample_env (Some sample_agent),
      TokenURL = authURL\<rparr>
     (GetUsername sample_env (Some sample_agent)) (GetPassword sample_env (Some sample_agent))
     (net world0) = (Inl ''oauth2: cannot fetch token'', 1)"
    by (simp add: sample_env_def sample_agent_def getter_def world0_def)
  show ?thesis
    using NewClient_exchange_fails [OF fails] fails by blast
qed

subsection \<open>Sequential calls\<close>

text \<open>
  C9. Two calls of Do in sequence, the second on the Client as the first left it:
  the Client is the same after each call, and the requests the second call hands
  to the transport are the request built from the Client and the second Request
  alone (none when the build fails or the Client has no transport). Neither the
  first Request nor anything the first call left behind enters it.
\<close>

theorem Do_sequential_calls:
  assumes "Do env c r1 v w = (o1, c1, v1, w1)"
    and "Do env c1 r2 v1 w1 = (o2, c2, v2, w2)"
  shows "c1 = c \<and> c2 = c \<and>
         (\<exists>evs. trace w2 = trace w1 @ evs \<and>
                sent evs = (case buildRequest env c r2 of
                              Value q \<Rightarrow> (case client c of None \<Rightarrow> [] | Some cl \<Rightarrow> [q])
                            | _ \<Rightarrow> []))"
proof -
  have c1: "c1 = c"
    using Do_client [of env c r1 v w] assms(1) by simp
  have c2: "c2 = c"
    using Do_client [of env c1 r2 v1 w1] assms(2) c1 by simp
  have "w2 = snd (snd (snd (Do env c r2 v1 w1)))"
    using assms(2) c1 by simp
  then show ?thesis
    using Do_trace [of env c r2 v1 w1] c1 c2 by simp
qed

theorem Do_sequential_calls_witness:
  "Do sample_env (TestClient (Some sample_reply) ''https://oauth.reddit.com/api'')
      \<lparr>Action = GET, URL = ''/search'', Values = Some [''q'' \<mapsto> [''go'']]\<rparr> [] world0 =
     (Value (), TestClient (Some sample_reply) ''https://oauth.reddit.com/api'', ''{}'',
      \<lparr>net = 1,
       trace = [RoundTrip \<lparr>Method = ''GET'', ReqURL = ''https://oauth.reddit.com/api/search?q=go'',
                           ReqHeader = [''User-Agent'' \<mapsto> ['''']], ReqBody = None\<rparr>,
                BodyRead, BodyClose]\<rparr>) \<and>
   Do sample_env (TestClient (Some sample_reply) ''https://oauth.reddit.com/api'')
      \<lparr>Action = GET, URL = ''/me'', Values = None\<rparr> ''{}''
      \<lparr>net = 1,
       trace = [RoundTrip \<lparr>Method = ''GET'', ReqURL = ''https://oauth.reddit.com/api/search?q=go'',
                           ReqHeader = [''User-Agent'' \<mapsto> ['''']], ReqBody = None\<rparr>,
                BodyRead, BodyClose]\<rparr> =
     (Value (), TestClient (Some sample_reply) ''https://oauth.reddit.com/api'', ''{}'',
      \<lparr>net = 2,
       trace = [RoundTrip \<lparr>Method = ''GET'', ReqURL = ''https://oauth.reddit.com/api/search?q=go'',
                           ReqHeader = [''User-Agent'' \<mapsto> ['''']], ReqBody = None\<rparr>,
                BodyRead, BodyClose,
                RoundTrip \<lparr>Method = ''GET'', ReqURL = ''https://oauth.reddit.com/api/me'',
                           ReqHeader = [''User-Agent'' \<mapsto> ['''']], ReqBody = None\<rparr>,
                BodyRead, BodyClose]\<rparr>) \<and>
   (\<exists>evs. [RoundTrip \<lparr>Method = ''GET'', ReqURL = ''https://oauth.reddit.com/api/search?q=go'',
                       ReqHeader = [''User-Agent'' \<mapsto> ['''']], ReqBody = None\<rparr>,
            BodyRead, BodyClose,
            RoundTrip \<lparr>Method = ''GET'', ReqURL = ''https://oauth.reddit.com/api/me'',
                       ReqHeader = [''User-Agent'' \<mapsto> ['''']], ReqBody = None\<rparr>,
            BodyRead, BodyClose] =
           [RoundTrip \<lparr>Method = ''GET'', ReqURL = ''https://oauth.reddit.com/api/search?q=go'',
                       ReqHeader = [''User-Agent'' \<mapsto> ['''']], ReqBody = None\<rparr>,
            BodyRead, BodyClose] @ evs \<and>
          sent evs = [\<lparr>Method = ''GET'', ReqURL = ''https://oauth.reddit.com/api/me'',
                       ReqHeader = [''User-Agent'' \<mapsto> ['''']], ReqBody = None\<rparr>])"
proof -
  let ?c = "TestClient (Some sample_reply) ''https://oauth.reddit.com/api''
              :: (UserAgent, string + http_Response) Client"
  let ?r1 = "\<lparr>Action = GET, URL = ''/search'', Values = Some [''q'' \<mapsto> [''go'']]\<rparr>"
  let ?r2 = "\<lparr>Action = GET, URL = ''/me'', Values = None\<rparr>"
  let ?q1 = "\<lparr>Method = ''GET'', ReqURL = ''https://oauth.reddit.com/api/search?q=go'',
              ReqHeader = [''User-Agent'' \<mapsto> ['''']], ReqBody = None\<rparr>"
  let ?q2 = "\<lparr>Method = ''GET'', ReqURL = ''https://oauth.reddit.com/api/me'',
              ReqHeader = [''User-Agent'' \<mapsto> ['''']], ReqBody = None\<rparr>"
  let ?w1 = "\<lparr>net = 1::nat, trace = [RoundTrip ?q1, BodyRead, BodyClose]\<rparr>"
  let ?w2 = "\<lparr>net = 2::nat,
              trace = [RoundTrip ?q1, BodyRead, BodyClose, RoundTrip ?q2, BodyRead, BodyClose]\<rparr>"
  have first: "Do sample_env ?c ?r1 [] world0 = (Value (), ?c, ''{}'', ?w1)"
    by (simp add: sample_defs model_defs)
  have second: "Do sample_env ?c ?r2 ''{}'' ?w1 = (Value (), ?c, ''{}'', ?w2)"
    by (simp add: sample_defs model_defs)
  have built: "buildRequest sample_env ?c ?r2 = Value ?q2"
    by (simp add: sample_defs model_defs)
  have cl: "client ?c = Some sample_reply"
    by (simp add: TestClient_def)
  show ?thesis
    using Do_sequential_calls [OF first second] first second built cl
    by simp
qed

subsection \<open>A Client whose authentication failed\<close>

text \<open>
  C10, as amended. When the token exchange fails, NewClient returns a pointer that
  is not nil together with the error; the \<^verbatim>\<open>client\<close> field of that Client is
  nil, and every call of Do on it whose request is built panics at the transport,
  leaving the world as it was.
\<close>

theorem NewClient_failed_then_Do:
  assumes "PasswordCredentialsToken env
             \<lparr>ClientID = GetClientId env ua, ClientSecret = GetClientSecret env ua,
              TokenURL = authURL\<rparr>
             (GetUsername env ua) (GetPassword env ua) (net w) = (Inl m, n)"
  shows "\<exists>c. NewClient env ua w = (Some c, Some (TokenError m), w\<lparr>net := n\<rparr>) \<and>
             client c = None \<and>
             (\<forall>r v w' q. buildRequest env c r = Value q \<longrightarrow>
                          Do env c r v w' = (Panic, c, v, w'))"
proof -
  let ?c = "\<lparr>baseURL = baseURL_const, client = None, userAgent = ua\<rparr>"
  have "NewClient env ua w = (Some ?c, Some (TokenError m), w\<lparr>net := n\<rparr>)"
    using assms by (rule NewClient_failure)
  moreover have "client ?c = None"
    by simp
  ultimately show ?thesis
    using Do_nil_client [of ?c env] by auto
qed

theorem NewClient_failed_then_Do_witness:
  "PasswordCredentialsToken sample_env
     \<lparr>ClientID = GetClientId sample_env (Some sample_agent),
      ClientSecret = GetClientSecret sample_env (Some sample_agent),
      TokenURL = authURL\<rparr>
     (GetUsername sample_env (Some sample_agent)) (GetPassword sample_env (Some sample_agent))
     (net world0) = (Inl ''oauth2: cannot fetch token'', 1) \<and>
   buildRequest sample_env
      \<lparr>baseURL = baseURL_const, client = None, userAgent = Some sample_agent\<rparr>
      \<lparr>Action = GET, URL = ''/me'', Values = None\<rparr> =
     Value \<lparr>Method = ''GET'', ReqURL = ''https://oauth.reddit.com/api/me'',
            ReqHeader = [''User-Agent'' \<mapsto> [''graw:test:0.1'']], ReqBody = None\<rparr> \<and>
   NewClient sample_env (Some sample_agent) world0 =
     (Some \<lparr>baseURL = baseURL_const, client = None, userAgent = Some sample_agent\<rparr>,
      Some (TokenError ''oauth2: cannot fetch token''), world0\<lparr>net := 1\<rparr>) \<and>
   Do sample_env \<lparr>baseURL = baseURL_const, client = None, userAgent = Some sample_agent\<rparr>
      \<lparr>Action = GET, URL = ''/me'', Values = None\<rparr> [] (world0\<lparr>net := 1\<rparr>) =
     (Panic, \<lparr>baseURL = baseURL_const, client = None, userAgent = Some sample_agent\<rparr>, [],
      world0\<lparr>net := 1\<rparr>)"
proof -
  let ?c = "\<lparr>baseURL = baseURL_const, client = None, userAgent = Some sample_agent\<rparr>
              :: (UserAgent, string + http_Response) Client"
  let ?r = "\<lparr>Action = GET, URL = ''/me'', Values = None\<rparr>"
  have fails: "PasswordCredentialsToken sample_env
     \<lparr>ClientID = GetClientId sample_env (Some sample_agent),
      ClientSecret = GetClientSecret sample_env (Some sample_agent),
      TokenURL = authURL\<rparr>
     (GetUsername sample_env (Some sample_agent)) (GetPassword sample_env (Some sample_agent))
     (net world0) = (Inl ''oauth2: cannot fetch token'', 1)"
    by (simp add: sample_env_def sample_agent_def getter_def world0_def)
  have built: "buildRequest sample_env ?c ?r =
     Value \<lparr>Method = ''GET'', ReqURL = ''https://oauth.reddit.com/api/me'',
            ReqHeader = [''User-Agent'' \<mapsto> [''graw:test:0.1'']], ReqBody = None\<rparr>"
    by (simp add: sample_defs model_defs)
  obtain c where c: "NewClient sample_env (Some sample_agent) world0 =
        (Some c, Some (TokenError ''oauth2: cannot fetch token''), world0\<lparr>net := 1\<rparr>)"
      "\<forall>r v w' q. buildRequest sample_env c r = Value q \<longrightarrow>
                   Do sample_env c r v w' = (Panic, c, v, w')"
    using NewClient_failed_then_Do [OF fails] by blast
  have "NewClient sample_env (Some sample_agent) world0 =
        (Some ?c, Some (TokenError ''oauth2: cannot fetch token''), world0\<lparr>net := 1\<rparr>)"
    by (rule NewClient_failure [OF fails])
  with c(1) have eq: "c = ?c"
    by simp
  show ?thesis
    using fails built c eq by simp
qed

text \<open>
  C10 as stated fails for a call whose request is not built: on the Client of a
  failed NewClient, Do with Action POST and nil Values returns the error
  "no values for POST body" and does not panic.
\<close>

theorem NewClient_failed_then_POST_without_values:
  "NewClient sample_env (Some sample_agent) world0 =
     (Some \<lparr>baseURL = baseURL_const, client = None, userAgent = Some sample_agent\<rparr>,
      Some (TokenError ''oauth2: cannot fetch token''), \<lparr>net = 1, trace = []\<rparr>) \<and>
   Do sample_env \<lparr>baseURL = baseURL_const, client = None, userAgent = Some sample_agent\<rparr>
      \<lparr>Action = POST, URL = ''/submit'', Values = None\<rparr> [] \<lparr>net = 1, trace = []\<rparr> =
     (Failure NoValues,
      \<lparr>baseURL = baseURL_const, client = None, userAgent = Some sample_agent\<rparr>, [],
      \<lparr>net = 1, trace = []\<rparr>) \<and>
   Failure NoValues \<noteq> (Panic :: unit outcome)"
  by (simp add: sample_defs model_defs)

end
